theory Spec2Isabelle
  imports Complex_Main
begin

section \<open>Python values and failures\<close>

text \<open>
  The module \<^verbatim>\<open>utilities.py\<close> computes with Python floats. They are idealised here as
  real numbers: rounding error, overflow and NaN are outside the model. What is kept
  is every way in which an operation of the source stops with an exception:
  \<^item> \<^verbatim>\<open>ValueError\<close> is raised by the source itself;
  \<^item> \<^verbatim>\<open>AttributeError\<close> comes from reading an attribute of \<^verbatim>\<open>None\<close>;
  \<^item> \<^verbatim>\<open>TypeError\<close> comes from arithmetic on \<^verbatim>\<open>None\<close>;
  \<^item> \<^verbatim>\<open>ZeroDivisionError\<close> comes from \<^verbatim>\<open>x / 0\<close> and from \<^verbatim>\<open>0 ** y\<close> with negative \<open>y\<close>.

  A negative base under a fractional exponent makes Python return a complex number.
  That is no exception, but the value is no real number either; the model marks this
  outcome as \<open>ComplexResult\<close> and no theorem below speaks about it.
\<close>

datatype py_error = ValueError | AttributeError | TypeError | ZeroDivisionError | ComplexResult

type_synonym 'a result = "py_error + 'a"

text \<open>Sequencing of two computations, the first exception ending the evaluation.\<close>

definition bindE :: "'a result \<Rightarrow> ('a \<Rightarrow> 'b result) \<Rightarrow> 'b result" where
  "bindE m f = (case m of Inl e \<Rightarrow> Inl e | Inr x \<Rightarrow> f x)"

text \<open>Python's true division \<^verbatim>\<open>x / y\<close>.\<close>

definition py_div :: "real \<Rightarrow> real \<Rightarrow> real result" where
  "py_div x y = (if y = 0 then Inl ZeroDivisionError else Inr (x / y))"

text \<open>
  Python's \<^verbatim>\<open>x ** y\<close> with a float exponent. For a positive base it is \<open>x powr y\<close>;
  a zero base gives 1 for \<open>y = 0\<close>, 0 for positive \<open>y\<close> and raises for negative \<open>y\<close>;
  a negative base is a real number only for an integral exponent.
\<close>

definition py_pow :: "real \<Rightarrow> real \<Rightarrow> real result" where
  "py_pow x y =
     (if 0 < x then Inr (x powr y)
      else if x = 0 then
        (if y < 0 then Inl ZeroDivisionError else if y = 0 then Inr 1 else Inr 0)
      else if y = of_int \<lfloor>y\<rfloor> then
        (if 0 \<le> y then Inr (x ^ nat \<lfloor>y\<rfloor>) else Inr (1 / x ^ nat \<lfloor>- y\<rfloor>))
      else Inl ComplexResult)"

text \<open>
  Functions that call \<^verbatim>\<open>warnings.warn\<close> return the list of warnings they emitted together
  with their result: a warning does not stop the evaluation.
\<close>

type_synonym 'a warned = "string list \<times> 'a result"

text \<open>
  Modelled from the spec: the constant \<^verbatim>\<open>G\<close> is imported from \<^verbatim>\<open>scipy.constants\<close>, which is
  not part of the repository; the specification works with \<open>G = 6.674e-11\<close>.
\<close>

definition G :: real where
  "G = 6674 / 10 ^ 14"

section \<open>The class CelestialBody\<close>

text \<open>
  An object of the class is the value of its attributes, the hosting body included:
  a value of this type is the chain of bodies that is reachable from one reference.
  The single-letter attributes \<^verbatim>\<open>a\<close>, \<^verbatim>\<open>k\<close> and \<^verbatim>\<open>Q\<close> are the selectors \<open>body_a\<close>, \<open>body_k\<close>
  and \<open>body_Q\<close>; the other selectors carry the attribute's name. The properties \<^verbatim>\<open>n\<close>,
  \<^verbatim>\<open>mu\<close>, \<^verbatim>\<open>R\<close> and \<^verbatim>\<open>I\<close> are the functions \<open>body_n\<close>, \<open>body_mu\<close>, \<open>body_R\<close> and \<open>body_I\<close>.
\<close>

datatype CelestialBody =
  CelestialBody
    (mass: real)
    (rho: real)
    (body_a: "real option")
    (omega: real)
    (body_k: real)
    (body_Q: real)
    (descriptive_index: string)
    (name: string)
    (hn: int)
    (hosting_body: "CelestialBody option")

text \<open>
  \<^verbatim>\<open>check_if_direct_orbits\<close>: the test on the hosted body comes first, so that a star is
  refused before the hosting body is looked at; reading \<^verbatim>\<open>hosting_body.hn\<close> of \<^verbatim>\<open>None\<close> is an
  \<^verbatim>\<open>AttributeError\<close>. The function assigns nothing: its only outcome is to return or raise.
\<close>

definition check_if_direct_orbits :: "CelestialBody option \<Rightarrow> CelestialBody \<Rightarrow> unit result" where
  "check_if_direct_orbits hosting hosted =
     (if hn hosted = 1 then Inl ValueError
      else case hosting of
        None \<Rightarrow> Inl AttributeError
      | Some h \<Rightarrow>
          (let distance = \<bar>hn hosted - hn h\<bar>
           in if distance \<noteq> 1 then Inl ValueError else Inr ()))"

text \<open>
  \<^verbatim>\<open>CelestialBody.__init__\<close>. The arguments are in the order of the source; the last one,
  \<^verbatim>\<open>inertial_moment\<close>, is never stored. The handler of the \<^verbatim>\<open>try\<close> block catches
  \<^verbatim>\<open>ValueError\<close> only and raises a \<^verbatim>\<open>ValueError\<close> again; any other exception passes through.
\<close>

definition init ::
  "real \<Rightarrow> real \<Rightarrow> real option \<Rightarrow> real \<Rightarrow> real \<Rightarrow> real \<Rightarrow> string \<Rightarrow> string \<Rightarrow> int \<Rightarrow>
   CelestialBody option \<Rightarrow> real \<Rightarrow> CelestialBody result" where
  "init mass_arg density semi_major_axis spin_frequency love_number quality_factor
        descriptive_index_arg name_arg hierarchy_number hosting_body_arg inertial_moment =
     (if hierarchy_number = 1 then
        Inr (CelestialBody mass_arg density None spin_frequency love_number quality_factor
               descriptive_index_arg name_arg hierarchy_number None)
      else
        (let self = CelestialBody mass_arg density semi_major_axis spin_frequency love_number
                      quality_factor descriptive_index_arg name_arg hierarchy_number None
         in case check_if_direct_orbits hosting_body_arg self of
              Inr _ \<Rightarrow>
                Inr (CelestialBody mass_arg density semi_major_axis spin_frequency love_number
                       quality_factor descriptive_index_arg name_arg hierarchy_number
                       hosting_body_arg)
            | Inl ValueError \<Rightarrow> Inl ValueError
            | Inl err \<Rightarrow> Inl err))"

text \<open>
  The two mutators: each is a single attribute assignment, and the function returns the
  body after it. They are the only places outside the constructor where the module
  assigns to an attribute.
\<close>

definition update_semi_major_axis_a :: "CelestialBody \<Rightarrow> real \<Rightarrow> CelestialBody" where
  "update_semi_major_axis_a self update_value =
     CelestialBody (mass self) (rho self) (Some update_value) (omega self) (body_k self)
       (body_Q self) (descriptive_index self) (name self) (hn self) (hosting_body self)"

definition update_spin_frequency_omega :: "CelestialBody \<Rightarrow> real \<Rightarrow> CelestialBody" where
  "update_spin_frequency_omega self update_value =
     CelestialBody (mass self) (rho self) (body_a self) update_value (body_k self)
       (body_Q self) (descriptive_index self) (name self) (hn self) (hosting_body self)"

section \<open>Gravitational parameter and Kepler's third law\<close>

text \<open>
  \<^verbatim>\<open>get_standard_grav_parameter\<close>: the optional check, then \<^verbatim>\<open>G * (hosting_body.mass +
  hosted_body.mass)\<close>.
\<close>

definition get_standard_grav_parameter ::
  "CelestialBody option \<Rightarrow> CelestialBody \<Rightarrow> bool \<Rightarrow> real result" where
  "get_standard_grav_parameter hosting hosted check_direct_orbits =
     bindE (if check_direct_orbits then check_if_direct_orbits hosting hosted else Inr ())
       (\<lambda>_. case hosting of
               None \<Rightarrow> Inl AttributeError
             | Some h \<Rightarrow> Inr (G * (mass h + mass hosted)))"

text \<open>
  \<^verbatim>\<open>keplers_law_n_from_a\<close>: \<^verbatim>\<open>mu ** (1 / 2) * hosted_body.a ** (-3 / 2)\<close>; an absent
  semi-major axis makes the power a \<^verbatim>\<open>TypeError\<close>.
\<close>

definition keplers_law_n_from_a :: "CelestialBody option \<Rightarrow> CelestialBody \<Rightarrow> real result" where
  "keplers_law_n_from_a hosting hosted =
     bindE (check_if_direct_orbits hosting hosted) (\<lambda>_.
     bindE (get_standard_grav_parameter hosting hosted False) (\<lambda>mu.
     bindE (py_pow mu (1 / 2)) (\<lambda>root_mu.
       case body_a hosted of
         None \<Rightarrow> Inl TypeError
       | Some av \<Rightarrow> bindE (py_pow av (- 3 / 2)) (\<lambda>p. Inr (root_mu * p)))))"

definition keplers_law_n_from_a_simple :: "real \<Rightarrow> real \<Rightarrow> real result" where
  "keplers_law_n_from_a_simple av mu =
     bindE (py_pow mu (1 / 2)) (\<lambda>root_mu.
     bindE (py_pow av (- 3 / 2)) (\<lambda>p. Inr (root_mu * p)))"

text \<open>The property \<^verbatim>\<open>n\<close> of a body.\<close>

definition body_n :: "CelestialBody \<Rightarrow> real result" where
  "body_n self = keplers_law_n_from_a (hosting_body self) self"

text \<open>
  \<^verbatim>\<open>keplers_law_a_from_n\<close>: \<^verbatim>\<open>mu ** (1 / 3) * hosted_body.n ** (-2 / 3)\<close>, where the orbit
  frequency is the property \<^verbatim>\<open>n\<close> of the hosted body.
\<close>

definition keplers_law_a_from_n :: "CelestialBody option \<Rightarrow> CelestialBody \<Rightarrow> real result" where
  "keplers_law_a_from_n hosting hosted =
     bindE (check_if_direct_orbits hosting hosted) (\<lambda>_.
     bindE (get_standard_grav_parameter hosting hosted False) (\<lambda>mu.
     bindE (py_pow mu (1 / 3)) (\<lambda>cube_root_mu.
     bindE (body_n hosted) (\<lambda>nv.
     bindE (py_pow nv (- 2 / 3)) (\<lambda>p. Inr (cube_root_mu * p))))))"

text \<open>The properties \<^verbatim>\<open>mu\<close>, \<^verbatim>\<open>R\<close> and \<^verbatim>\<open>I\<close> of a body.\<close>

definition body_mu :: "CelestialBody \<Rightarrow> real result" where
  "body_mu self = get_standard_grav_parameter (hosting_body self) self False"

definition body_R :: "CelestialBody \<Rightarrow> real result" where
  "body_R self =
     bindE (py_div (3 * mass self) (rho self)) (\<lambda>q.
     bindE (py_div q (4 * pi)) (\<lambda>v. py_pow v (1 / 3)))"

definition body_I :: "CelestialBody \<Rightarrow> real result" where
  "body_I self = bindE (body_R self) (\<lambda>r. Inr (2 / 5 * mass self * r ^ 2))"

section \<open>Hill radius, critical semi-major axis, Roche limit\<close>

definition hill_warning :: string where
  "hill_warning = ''WARNING: Can the hill-radius between the planet and star be defined?''"

text \<open>
  \<^verbatim>\<open>get_hill_radius_relevant_to_body\<close>: \<^verbatim>\<open>j.a * (j.mass / (3 * i.mass)) ** (1 / 3)\<close> for the
  hosting body \<open>j\<close> and its hosting body \<open>i\<close>. The quotient and the power are evaluated
  before the product, which is a \<^verbatim>\<open>TypeError\<close> when \<^verbatim>\<open>j.a\<close> is \<^verbatim>\<open>None\<close>.
\<close>

definition get_hill_radius_relevant_to_body :: "CelestialBody \<Rightarrow> real warned" where
  "get_hill_radius_relevant_to_body hosted =
     (if hn hosted \<le> 2 then ([hill_warning], Inl ValueError)
      else ([],
        case hosting_body hosted of
          None \<Rightarrow> Inl AttributeError
        | Some j \<Rightarrow>
            (case hosting_body j of
               None \<Rightarrow> Inl AttributeError
             | Some i \<Rightarrow>
                 bindE (py_div (mass j) (3 * mass i)) (\<lambda>q.
                 bindE (py_pow q (1 / 3)) (\<lambda>p.
                   case body_a j of
                     None \<Rightarrow> Inl TypeError
                   | Some aj \<Rightarrow> Inr (aj * p))))))"

text \<open>
  \<^verbatim>\<open>get_critical_semi_major_axis\<close>: the fraction \<open>f\<close> is chosen by the hierarchy number,
  and the call of the Hill radius passes its warnings and its exception on.
\<close>

definition get_critical_semi_major_axis :: "CelestialBody \<Rightarrow> real warned" where
  "get_critical_semi_major_axis hosted =
     (case (if hn hosted = 3 then Some (4 / 10)
            else if hn hosted = 4 then Some (33 / 100)
            else None) of
        None \<Rightarrow> ([hill_warning], Inl ValueError)
      | Some f \<Rightarrow>
          (case get_hill_radius_relevant_to_body hosted of
             (ws, r) \<Rightarrow> (ws, bindE r (\<lambda>r_h. Inr (f * r_h)))))"

text \<open>\<^verbatim>\<open>get_roche_limit\<close>: \<^verbatim>\<open>j.R * (3 * i.mass / j.mass) ** (1 / 3)\<close>.\<close>

definition get_roche_limit :: "CelestialBody \<Rightarrow> real result" where
  "get_roche_limit hosted =
     bindE (body_R hosted) (\<lambda>r.
       case hosting_body hosted of
         None \<Rightarrow> Inl AttributeError
       | Some i \<Rightarrow>
           bindE (py_div (3 * mass i) (mass hosted)) (\<lambda>q.
           bindE (py_pow q (1 / 3)) (\<lambda>p. Inr (r * p))))"

section \<open>Analytical lifetime in a one-tide system\<close>

text \<open>
  \<^verbatim>\<open>analytical_lifetime_one_tide\<close>: the left-hand side is evaluated first, from left to
  right, then the right-hand side, then the quotient.
\<close>

definition analytical_lifetime_one_tide :: "real \<Rightarrow> real \<Rightarrow> CelestialBody \<Rightarrow> real result" where
  "analytical_lifetime_one_tide a_0 a_c hosted =
     bindE (py_pow a_c (13 / 2)) (\<lambda>p.
     bindE (py_div a_0 a_c) (\<lambda>ratio.
     bindE (py_pow ratio (13 / 2)) (\<lambda>ratio_p.
       let left_hand_side = 2 / 13 * p * (1 - ratio_p)
       in case hosting_body hosted of
            None \<Rightarrow> Inl AttributeError
          | Some i \<Rightarrow>
              bindE (py_div (3 * body_k i) (body_Q i)) (\<lambda>c.
              bindE (py_div G (mass i)) (\<lambda>g.
              bindE (py_pow g (1 / 2)) (\<lambda>root_g.
              bindE (body_R i) (\<lambda>r.
                let right_hand_side = c * root_g * r ^ 5 * mass hosted
                in py_div left_hand_side right_hand_side)))))))"

section \<open>Seconds to years\<close>

definition years_warning :: string where
  "years_warning = ''Something unexpected occured inside function `turn_seconds_to_years`.''"

text \<open>
  \<^verbatim>\<open>turn_seconds_to_years\<close>: the last branch calls \<^verbatim>\<open>warnings.warn\<close> and then reaches the end
  of the function, which returns \<^verbatim>\<open>None\<close>; the result is therefore an optional number.
  The default value of the keyword is \<^verbatim>\<open>"Normal"\<close>. The function \<^verbatim>\<open>np.round\<close> belongs to
  numpy, not to this module, and rounds a double, which the real numbers of this model
  cannot reproduce: it is the first argument \<open>np_round\<close> of the model.
\<close>

definition turn_seconds_to_years ::
  "(real \<Rightarrow> nat \<Rightarrow> real) \<Rightarrow> real \<Rightarrow> string \<Rightarrow> real option warned" where
  "turn_seconds_to_years np_round seconds keyword =
     (let conversion_factor = 3600 * 24 * 365;
          seconds_in_years = seconds / conversion_factor
      in if keyword = ''Vanilla'' then ([], Inr (Some (np_round seconds_in_years 2)))
         else if keyword = ''Millions'' then
           ([], Inr (Some (np_round (seconds_in_years / 10 ^ 6) 2)))
         else if keyword = ''Billions'' then
           ([], Inr (Some (np_round (seconds_in_years / 10 ^ 9) 2)))
         else ([years_warning], Inr None))"

definition default_keyword :: string where
  "default_keyword = ''Normal''"

section \<open>Chains of bodies\<close>

text \<open>
  What the constructor guarantees of a body and of every body above it: a body of
  hierarchy number 1 has no hosting body, and any other body has one whose hierarchy
  number is at distance 1.
\<close>

fun direct_chain :: "CelestialBody \<Rightarrow> bool" where
  "direct_chain (CelestialBody m d sa w kk q di nm l None) = (l = 1)"
| "direct_chain (CelestialBody m d sa w kk q di nm l (Some h)) =
     (l \<noteq> 1 \<and> \<bar>l - hn h\<bar> = 1 \<and> direct_chain h)"

text \<open>The number of hosting bodies above a body.\<close>

fun depth :: "CelestialBody \<Rightarrow> nat" where
  "depth (CelestialBody m d sa w kk q di nm l None) = 0"
| "depth (CelestialBody m d sa w kk q di nm l (Some h)) = Suc (depth h)"

section \<open>A star, a planet, a moon and a submoon\<close>

text \<open>The bodies on which the theorems below are evaluated.\<close>

definition sun_ex :: CelestialBody where
  "sun_ex = CelestialBody 3 1 None 0 1 1 ''s'' ''sun'' 1 None"

definition earth_ex :: CelestialBody where
  "earth_ex = CelestialBody 1 1 (Some 8) 0 1 1 ''p'' ''earth'' 2 (Some sun_ex)"

definition moon_ex :: CelestialBody where
  "moon_ex = CelestialBody 1 1 (Some 2) 0 1 1 ''m'' ''moon'' 3 (Some earth_ex)"

definition submoon_ex :: CelestialBody where
  "submoon_ex = CelestialBody 1 1 (Some 1) 0 1 1 ''sm'' ''submoon'' 4 (Some moon_ex)"

section \<open>Auxiliary facts\<close>

lemma bindE_Inr [simp]: "bindE (Inr x) f = f x"
  by (simp add: bindE_def)

lemma bindE_Inl [simp]: "bindE (Inl e) f = Inl e"
  by (simp add: bindE_def)

lemma py_div_nonzero: "y \<noteq> 0 \<Longrightarrow> py_div x y = Inr (x / y)"
  by (simp add: py_div_def)

lemma py_pow_pos: "0 < x \<Longrightarrow> py_pow x y = Inr (x powr y)"
  by (simp add: py_pow_def)

lemma G_pos: "0 < G"
  by (simp add: G_def)

lemma init_level_1:
  "init m d sa w kk q di nm 1 hb im = Inr (CelestialBody m d None w kk q di nm 1 None)"
  by (simp add: init_def)

lemma init_other_level:
  "l \<noteq> 1 \<Longrightarrow>
   init m d sa w kk q di nm l hb im =
     (case hb of
        None \<Rightarrow> Inl AttributeError
      | Some h \<Rightarrow>
          if \<bar>l - hn h\<bar> = 1 then Inr (CelestialBody m d sa w kk q di nm l (Some h))
          else Inl ValueError)"
  by (simp add: init_def check_if_direct_orbits_def Let_def split: option.splits)

lemma direct_chain_level: "direct_chain b \<Longrightarrow> \<bar>hn b - 1\<bar> \<le> int (depth b)"
  by (induction b rule: direct_chain.induct) auto

lemma init_direct_chain:
  "(case hb of None \<Rightarrow> True | Some h \<Rightarrow> direct_chain h) \<Longrightarrow>
   init m d sa w kk q di nm l hb im = Inr b \<Longrightarrow> hn b = l \<and> direct_chain b"
  by (cases "l = 1") (auto simp: init_level_1 init_other_level split: option.splits if_splits)

lemma direct_chain_mutators:
  "direct_chain (update_semi_major_axis_a b v) = direct_chain b"
  "direct_chain (update_spin_frequency_omega b v) = direct_chain b"
  by (cases b rule: direct_chain.cases;
      simp add: update_semi_major_axis_a_def update_spin_frequency_omega_def)+

lemma direct_chain_examples:
  "direct_chain sun_ex" "direct_chain earth_ex" "direct_chain moon_ex" "direct_chain submoon_ex"
  by (simp_all add: sun_ex_def earth_ex_def moon_ex_def submoon_ex_def)

lemma kepler_algebra:
  fixes av mu :: real
  assumes "0 < av" "0 < mu"
  shows "mu powr (1 / 3) * (mu powr (1 / 2) * av powr (- 3 / 2)) powr (- 2 / 3) = av"
proof -
  have "(mu powr (1 / 2) * av powr (- 3 / 2)) powr (- 2 / 3)
        = (mu powr (1 / 2)) powr (- 2 / 3) * (av powr (- 3 / 2)) powr (- 2 / 3)"
    by (simp add: powr_mult)
  also have "\<dots> = mu powr (- 1 / 3) * av powr 1"
    by (simp add: powr_powr)
  finally have "mu powr (1 / 3) * (mu powr (1 / 2) * av powr (- 3 / 2)) powr (- 2 / 3)
        = (mu powr (1 / 3) * mu powr (- 1 / 3)) * av powr 1"
    by simp
  also have "mu powr (1 / 3) * mu powr (- 1 / 3) = 1"
    using assms by (simp add: powr_add [symmetric])
  finally show ?thesis using assms by simp
qed

lemma body_R_pos:
  assumes "0 < mass b" and "0 < rho b"
  shows "body_R b = Inr ((3 * mass b / rho b / (4 * pi)) powr (1 / 3)) \<and>
         0 < (3 * mass b / rho b / (4 * pi)) powr (1 / 3)"
proof -
  define q where "q = 3 * mass b / rho b"
  define v where "v = q / (4 * pi)"
  have q: "0 < q" unfolding q_def using assms by simp
  have v: "0 < v" unfolding v_def using q by simp
  have d1: "py_div (3 * mass b) (rho b) = Inr q"
    using assms(2) by (simp add: py_div_nonzero q_def)
  have d2: "py_div q (4 * pi) = Inr v"
    by (simp add: py_div_nonzero v_def)
  have "body_R b = Inr (v powr (1 / 3))"
    using d1 d2 v by (simp add: body_R_def py_pow_pos)
  moreover have "0 < v powr (1 / 3)" using v by simp
  ultimately show ?thesis unfolding v_def q_def by simp
qed

lemma direct_chain_host:
  "direct_chain b \<Longrightarrow> hn b \<noteq> 1 \<Longrightarrow> \<exists>h. hosting_body b = Some h \<and> \<bar>hn b - hn h\<bar> = 1 \<and> direct_chain h"
  by (cases b rule: direct_chain.cases) auto

lemma py_pow_nonneg: "0 \<le> x \<Longrightarrow> 0 < y \<Longrightarrow> py_pow x y = Inr (x powr y)"
  by (simp add: py_pow_def)

section \<open>The hierarchy check\<close>

text \<open>
  Claim C4. For a hosting body of hierarchy number \<open>p\<close> and a hosted body of hierarchy
  number \<open>c\<close>, \<^verbatim>\<open>check_if_direct_orbits\<close> returns exactly when \<open>c \<noteq> 1\<close> and \<open>\<bar>c - p\<bar> = 1\<close>,
  and raises \<^verbatim>\<open>ValueError\<close> in every other case. The function only reads the two
  hierarchy numbers: it has no body to return and changes none.
\<close>

theorem check_if_direct_orbits_iff:
  "(check_if_direct_orbits (Some hosting) hosted = Inr ()) =
     (hn hosted \<noteq> 1 \<and> \<bar>hn hosted - hn hosting\<bar> = 1) \<and>
   check_if_direct_orbits (Some hosting) hosted =
     (if hn hosted \<noteq> 1 \<and> \<bar>hn hosted - hn hosting\<bar> = 1 then Inr () else Inl ValueError)"
  by (simp add: check_if_direct_orbits_def Let_def)

theorem check_if_direct_orbits_iff_witness:
  "check_if_direct_orbits (Some earth_ex) moon_ex = Inr () \<and>
   check_if_direct_orbits (Some moon_ex) earth_ex = Inr () \<and>
   check_if_direct_orbits (Some earth_ex) sun_ex = Inl ValueError \<and>
   check_if_direct_orbits (Some sun_ex) moon_ex = Inl ValueError"
  using check_if_direct_orbits_iff [of earth_ex moon_ex]
    check_if_direct_orbits_iff [of moon_ex earth_ex]
    check_if_direct_orbits_iff [of earth_ex sun_ex]
    check_if_direct_orbits_iff [of sun_ex moon_ex]
  by (simp add: sun_ex_def earth_ex_def moon_ex_def)

section \<open>Construction\<close>

text \<open>
  Claim C9. A constructor call with hierarchy number 1 always returns a body, whose
  hosting body and semi-major axis are both \<^verbatim>\<open>None\<close>, whatever was passed for them; since
  the call returns for every hosting body, no adjacency check decides its outcome.
\<close>

theorem init_star:
  "init m d sa w kk q di nm 1 hb im = Inr (CelestialBody m d None w kk q di nm 1 None) \<and>
   (\<exists>b. init m d sa w kk q di nm 1 hb im = Inr b \<and> hosting_body b = None \<and> body_a b = None)"
  by (simp add: init_def)

theorem init_star_witness:
  "init 3 1 (Some 5) 0 1 1 ''s'' ''sun'' 1 (Some submoon_ex) 0 = Inr sun_ex"
  using init_star [of 3 1 "Some 5" 0 1 1 "''s''" "''sun''" "Some submoon_ex" 0]
  by (simp add: sun_ex_def)

text \<open>
  Claim C1, as the code has it. The constructor of a body that is no star accepts a
  hosting body exactly when the two hierarchy numbers are at distance 1, so a hosting
  body one level below the new body is accepted as well as one a level above; the body
  then keeps that hosting body. Any other hosting body is a \<^verbatim>\<open>ValueError\<close>, and no hosting
  body at all is an \<^verbatim>\<open>AttributeError\<close>.
\<close>

theorem init_non_star:
  "l \<noteq> 1 \<Longrightarrow>
   init m d sa w kk q di nm l hb im =
     (case hb of
        None \<Rightarrow> Inl AttributeError
      | Some h \<Rightarrow>
          if hn h = l - 1 \<or> hn h = l + 1
          then Inr (CelestialBody m d sa w kk q di nm l (Some h))
          else Inl ValueError)"
  by (auto simp: init_other_level split: option.splits)

theorem init_non_star_witness:
  "(2::int) \<noteq> 1 \<and>
   init 1 1 (Some 8) 0 1 1 ''p'' ''earth'' 2 (Some sun_ex) 0 = Inr earth_ex \<and>
   init 1 1 (Some 8) 0 1 1 ''p'' ''earth'' 2 (Some earth_ex) 0 = Inl ValueError \<and>
   init 1 1 (Some 8) 0 1 1 ''p'' ''earth'' 2 None 0 = Inl AttributeError"
  using init_non_star [of 2 1 1 "Some 8" 0 1 1 "''p''" "''earth''" "Some sun_ex" 0]
    init_non_star [of 2 1 1 "Some 8" 0 1 1 "''p''" "''earth''" "Some earth_ex" 0]
    init_non_star [of 2 1 1 "Some 8" 0 1 1 "''p''" "''earth''" None 0]
  by (simp add: sun_ex_def earth_ex_def)

text \<open>
  The claim as it was stated fails: on the chain star, planet, moon, each built by the
  constructor, a body of hierarchy number 2 is constructed with the moon, of hierarchy
  number 3, as its hosting body.
\<close>

theorem init_accepts_host_above:
  "init 3 1 None 0 1 1 ''s'' ''sun'' 1 None 0 = Inr sun_ex \<and>
   init 1 1 (Some 8) 0 1 1 ''p'' ''earth'' 2 (Some sun_ex) 0 = Inr earth_ex \<and>
   init 1 1 (Some 2) 0 1 1 ''m'' ''moon'' 3 (Some earth_ex) 0 = Inr moon_ex \<and>
   hn moon_ex = 3 \<and> hn moon_ex \<noteq> 2 - 1 \<and>
   init 1 1 (Some 1) 0 1 1 ''p'' ''planet'' 2 (Some moon_ex) 0 =
     Inr (CelestialBody 1 1 (Some 1) 0 1 1 ''p'' ''planet'' 2 (Some moon_ex))"
  by (simp add: init_def check_if_direct_orbits_def sun_ex_def earth_ex_def moon_ex_def)

text \<open>
  Claim C3, as the code has it. The constructor has no test of the range of the
  hierarchy number. A construction attempt returns a body exactly when the hierarchy
  number is 1 or a hosting body is passed whose hierarchy number is at distance 1; it
  fails exactly when the hierarchy number is not 1 and the hosting body is missing or
  not at distance 1. A body built by the constructor on a hosting body that was built
  the same way has the hierarchy number that was passed; it is a star, or its hierarchy
  number is at distance 1 from the one of its hosting body, all the way up; hence its
  hierarchy number differs from 1 by at most the number of bodies above it.
\<close>

theorem init_level_range:
  assumes "case hb of None \<Rightarrow> True | Some h \<Rightarrow> direct_chain h"
  shows "((\<exists>b. init m d sa w kk q di nm l hb im = Inr b) =
            (l = 1 \<or> (\<exists>h. hb = Some h \<and> \<bar>l - hn h\<bar> = 1))) \<and>
         ((\<exists>e. init m d sa w kk q di nm l hb im = Inl e) =
            (l \<noteq> 1 \<and> (hb = None \<or> (\<exists>h. hb = Some h \<and> \<bar>l - hn h\<bar> \<noteq> 1)))) \<and>
         (\<forall>b. init m d sa w kk q di nm l hb im = Inr b \<longrightarrow>
              hn b = l \<and> direct_chain b \<and> \<bar>hn b - 1\<bar> \<le> int (depth b))"
proof -
  have ok: "(\<exists>b. init m d sa w kk q di nm l hb im = Inr b) =
              (l = 1 \<or> (\<exists>h. hb = Some h \<and> \<bar>l - hn h\<bar> = 1))"
    by (cases "l = 1") (auto simp: init_level_1 init_other_level split: option.splits)
  have fails: "(\<exists>e. init m d sa w kk q di nm l hb im = Inl e) =
                 (l \<noteq> 1 \<and> (hb = None \<or> (\<exists>h. hb = Some h \<and> \<bar>l - hn h\<bar> \<noteq> 1)))"
    by (cases "l = 1") (auto simp: init_level_1 init_other_level split: option.splits)
  have built: "hn b = l \<and> direct_chain b \<and> \<bar>hn b - 1\<bar> \<le> int (depth b)"
    if "init m d sa w kk q di nm l hb im = Inr b" for b
    using that init_direct_chain [OF assms, of m d sa w kk q di nm l im b]
      direct_chain_level [of b]
    by simp
  show ?thesis
    using ok fails built by blast
qed

theorem init_level_range_witness:
  "direct_chain moon_ex \<and>
   init 1 1 (Some 1) 0 1 1 ''sm'' ''submoon'' 4 (Some moon_ex) 0 = Inr submoon_ex \<and>
   hn submoon_ex = 4 \<and> direct_chain submoon_ex \<and>
   \<bar>hn submoon_ex - 1\<bar> \<le> int (depth submoon_ex) \<and>
   (\<exists>e. init 1 1 (Some 1) 0 1 1 ''sm'' ''submoon'' 4 (Some sun_ex) 0 = Inl e)"
proof -
  have c: "case Some moon_ex of None \<Rightarrow> True | Some h \<Rightarrow> direct_chain h"
    by (simp add: direct_chain_examples)
  have c': "case Some sun_ex of None \<Rightarrow> True | Some h \<Rightarrow> direct_chain h"
    by (simp add: direct_chain_examples)
  have i: "init 1 1 (Some 1) 0 1 1 ''sm'' ''submoon'' 4 (Some moon_ex) 0 = Inr submoon_ex"
    by (simp add: init_def check_if_direct_orbits_def moon_ex_def submoon_ex_def)
  have far: "(4::int) \<noteq> 1 \<and> (Some sun_ex = None \<or> (\<exists>h. Some sun_ex = Some h \<and> \<bar>4 - hn h\<bar> \<noteq> 1))"
    by (simp add: sun_ex_def)
  have "hn submoon_ex = 4 \<and> direct_chain submoon_ex \<and>
        \<bar>hn submoon_ex - 1\<bar> \<le> int (depth submoon_ex)"
    using init_level_range [OF c, of 1 1 "Some 1" 0 1 1 "''sm''" "''submoon''" 4 0] i
    by blast
  moreover have "\<exists>e. init 1 1 (Some 1) 0 1 1 ''sm'' ''submoon'' 4 (Some sun_ex) 0 = Inl e"
    using init_level_range [OF c', of 1 1 "Some 1" 0 1 1 "''sm''" "''submoon''" 4 0] far
    by blast
  ultimately show ?thesis
    using i direct_chain_examples(3) by blast
qed

text \<open>
  The claim as it was stated fails: on the submoon of the chain, a body of hierarchy
  number 5 is constructed, and on the star a body of hierarchy number 0.
\<close>

theorem init_accepts_level_5:
  "init 1 1 (Some 2) 0 1 1 ''m'' ''moon'' 3 (Some earth_ex) 0 = Inr moon_ex \<and>
   init 1 1 (Some 1) 0 1 1 ''sm'' ''submoon'' 4 (Some moon_ex) 0 = Inr submoon_ex \<and>
   init 1 1 (Some 1) 0 1 1 ''x'' ''fifth'' 5 (Some submoon_ex) 0 =
     Inr (CelestialBody 1 1 (Some 1) 0 1 1 ''x'' ''fifth'' 5 (Some submoon_ex)) \<and>
   init 1 1 (Some 1) 0 1 1 ''x'' ''zeroth'' 0 (Some sun_ex) 0 =
     Inr (CelestialBody 1 1 (Some 1) 0 1 1 ''x'' ''zeroth'' 0 (Some sun_ex))"
  by (simp add: init_def check_if_direct_orbits_def sun_ex_def earth_ex_def moon_ex_def
      submoon_ex_def)

section \<open>The mutators\<close>

text \<open>
  Claim C10. \<^verbatim>\<open>update_semi_major_axis_a\<close> changes the semi-major axis and nothing else,
  \<^verbatim>\<open>update_spin_frequency_omega\<close> changes the spin frequency and nothing else: mass,
  density, Love number, quality factor, descriptive index, name, hierarchy number and
  hosting body are the same before and after. The inertial moment passed to the
  constructor is not an attribute of the body; the inertial moment the body offers is
  the property \<^verbatim>\<open>I\<close>, computed from mass and density, and it is unchanged as well. No other
  function of the module assigns to an attribute, which is why each of them is a
  function from bodies to results here.
\<close>

theorem mutators_frame:
  "mass (update_semi_major_axis_a b v) = mass b \<and>
   rho (update_semi_major_axis_a b v) = rho b \<and>
   body_a (update_semi_major_axis_a b v) = Some v \<and>
   omega (update_semi_major_axis_a b v) = omega b \<and>
   body_k (update_semi_major_axis_a b v) = body_k b \<and>
   body_Q (update_semi_major_axis_a b v) = body_Q b \<and>
   descriptive_index (update_semi_major_axis_a b v) = descriptive_index b \<and>
   name (update_semi_major_axis_a b v) = name b \<and>
   hn (update_semi_major_axis_a b v) = hn b \<and>
   hosting_body (update_semi_major_axis_a b v) = hosting_body b \<and>
   body_I (update_semi_major_axis_a b v) = body_I b \<and>
   mass (update_spin_frequency_omega b v) = mass b \<and>
   rho (update_spin_frequency_omega b v) = rho b \<and>
   body_a (update_spin_frequency_omega b v) = body_a b \<and>
   omega (update_spin_frequency_omega b v) = v \<and>
   body_k (update_spin_frequency_omega b v) = body_k b \<and>
   body_Q (update_spin_frequency_omega b v) = body_Q b \<and>
   descriptive_index (update_spin_frequency_omega b v) = descriptive_index b \<and>
   name (update_spin_frequency_omega b v) = name b \<and>
   hn (update_spin_frequency_omega b v) = hn b \<and>
   hosting_body (update_spin_frequency_omega b v) = hosting_body b \<and>
   body_I (update_spin_frequency_omega b v) = body_I b"
  by (simp add: update_semi_major_axis_a_def update_spin_frequency_omega_def body_I_def
      body_R_def)

theorem mutators_frame_witness:
  "update_semi_major_axis_a moon_ex 5 =
     CelestialBody 1 1 (Some 5) 0 1 1 ''m'' ''moon'' 3 (Some earth_ex) \<and>
   update_spin_frequency_omega moon_ex 5 =
     CelestialBody 1 1 (Some 2) 5 1 1 ''m'' ''moon'' 3 (Some earth_ex)"
  using mutators_frame [of moon_ex 5]
  by (simp add: update_semi_major_axis_a_def update_spin_frequency_omega_def moon_ex_def)

section \<open>Kepler's third law, there and back\<close>

text \<open>
  Claim C5. Let a body orbit its hosting body directly, with a positive semi-major
  axis \<open>a\<close> and a positive \<open>mu = G * (m\<^sub>1 + m\<^sub>2)\<close>. Its orbit frequency, the property \<^verbatim>\<open>n\<close>, is
  what \<^verbatim>\<open>keplers_law_n_from_a_simple\<close> computes from \<open>a\<close> and \<open>mu\<close>, namely
  \<open>mu\<^sup>1\<^sup>/\<^sup>2 * a\<^sup>-\<^sup>3\<^sup>/\<^sup>2\<close>, and \<^verbatim>\<open>keplers_law_a_from_n\<close>, which inverts that frequency with the
  same \<open>mu\<close> as \<open>mu\<^sup>1\<^sup>/\<^sup>3 * n\<^sup>-\<^sup>2\<^sup>/\<^sup>3\<close>, returns \<open>a\<close> again.
\<close>

theorem kepler_round_trip:
  assumes "hosting_body b = Some h"
    and "hn b \<noteq> 1" and "\<bar>hn b - hn h\<bar> = 1"
    and "body_a b = Some av" and "0 < av"
    and "0 < mass h + mass b"
  shows "\<exists>nv. keplers_law_n_from_a_simple av (G * (mass h + mass b)) = Inr nv \<and>
              body_n b = Inr nv \<and>
              nv = (G * (mass h + mass b)) powr (1 / 2) * av powr (- 3 / 2) \<and>
              body_mu b = Inr (G * (mass h + mass b)) \<and>
              keplers_law_a_from_n (Some h) b = Inr av"
proof -
  define mu where "mu = G * (mass h + mass b)"
  define nv where "nv = mu powr (1 / 2) * av powr (- 3 / 2)"
  have mu: "0 < mu"
    unfolding mu_def using assms(6) G_pos by simp
  have nv: "0 < nv"
    unfolding nv_def using mu assms(5) by (intro mult_pos_pos) simp_all
  have chk: "check_if_direct_orbits (Some h) b = Inr ()"
    using assms(2,3) by (simp add: check_if_direct_orbits_def)
  have gp: "get_standard_grav_parameter (Some h) b False = Inr mu"
    by (simp add: get_standard_grav_parameter_def mu_def)
  have s: "keplers_law_n_from_a_simple av mu = Inr nv"
    using mu assms(5) by (simp add: keplers_law_n_from_a_simple_def py_pow_pos nv_def)
  have n: "body_n b = Inr nv"
    using mu assms(1,4,5) chk gp
    by (simp add: body_n_def keplers_law_n_from_a_def py_pow_pos nv_def)
  have "keplers_law_a_from_n (Some h) b = Inr (mu powr (1 / 3) * nv powr (- 2 / 3))"
    using mu nv chk gp n by (simp add: keplers_law_a_from_n_def py_pow_pos)
  also have "mu powr (1 / 3) * nv powr (- 2 / 3) = av"
    unfolding nv_def by (rule kepler_algebra [OF assms(5) mu])
  finally have "keplers_law_a_from_n (Some h) b = Inr av" .
  moreover have "body_mu b = Inr mu"
    using gp assms(1) by (simp add: body_mu_def)
  ultimately show ?thesis
    using s n unfolding nv_def mu_def by blast
qed

theorem kepler_round_trip_witness:
  "hosting_body moon_ex = Some earth_ex \<and> hn moon_ex \<noteq> 1 \<and> \<bar>hn moon_ex - hn earth_ex\<bar> = 1 \<and>
   body_a moon_ex = Some 2 \<and> (0::real) < 2 \<and> 0 < mass earth_ex + mass moon_ex \<and>
   body_n moon_ex = keplers_law_n_from_a_simple 2 (G * (mass earth_ex + mass moon_ex)) \<and>
   keplers_law_a_from_n (Some earth_ex) moon_ex = Inr 2"
proof -
  have h: "hosting_body moon_ex = Some earth_ex" "hn moon_ex \<noteq> 1"
    "\<bar>hn moon_ex - hn earth_ex\<bar> = 1" "body_a moon_ex = Some 2" "(0::real) < 2"
    "0 < mass earth_ex + mass moon_ex"
    by (simp_all add: moon_ex_def earth_ex_def)
  from kepler_round_trip [OF h]
  have "body_n moon_ex = keplers_law_n_from_a_simple 2 (G * (mass earth_ex + mass moon_ex))"
    and "keplers_law_a_from_n (Some earth_ex) moon_ex = Inr 2"
    by auto
  with h show ?thesis by simp
qed

section \<open>Hill radius and critical semi-major axis\<close>

text \<open>
  Claim C7. For a body of hierarchy number 1 or 2, \<^verbatim>\<open>get_hill_radius_relevant_to_body\<close>
  and \<^verbatim>\<open>get_critical_semi_major_axis\<close> both emit the warning and then raise \<^verbatim>\<open>ValueError\<close>.
  A body of hierarchy number 3 or 4 on a chain built by the constructor has a hosting
  body \<open>j\<close>, which has a hosting body \<open>i\<close>; when \<open>j\<close> has a semi-major axis and the two
  masses are positive, the Hill radius is \<open>a\<^sub>j * (m\<^sub>j / (3 * m\<^sub>i))\<^sup>1\<^sup>/\<^sup>3\<close> and the critical
  semi-major axis is that radius times 0.4 at hierarchy number 3 and times 0.33 at
  hierarchy number 4, neither with a warning.
\<close>

theorem hill_radius_and_critical_axis:
  "(hn b = 1 \<or> hn b = 2 \<longrightarrow>
      get_hill_radius_relevant_to_body b = ([hill_warning], Inl ValueError) \<and>
      get_critical_semi_major_axis b = ([hill_warning], Inl ValueError)) \<and>
   (direct_chain b \<and> (hn b = 3 \<or> hn b = 4) \<longrightarrow>
      (\<exists>j i. hosting_body b = Some j \<and> hosting_body j = Some i \<and>
         (\<forall>aj. body_a j = Some aj \<and> 0 < mass j \<and> 0 < mass i \<longrightarrow>
            get_hill_radius_relevant_to_body b =
              ([], Inr (aj * (mass j / (3 * mass i)) powr (1 / 3))) \<and>
            get_critical_semi_major_axis b =
              ([], Inr ((if hn b = 3 then 4 / 10 else 33 / 100) *
                        (aj * (mass j / (3 * mass i)) powr (1 / 3)))))))"
proof (intro conjI impI)
  assume "hn b = 1 \<or> hn b = 2"
  then show "get_hill_radius_relevant_to_body b = ([hill_warning], Inl ValueError)"
    by (auto simp: get_hill_radius_relevant_to_body_def)
next
  assume "hn b = 1 \<or> hn b = 2"
  then show "get_critical_semi_major_axis b = ([hill_warning], Inl ValueError)"
    by (auto simp: get_critical_semi_major_axis_def)
next
  assume h: "direct_chain b \<and> (hn b = 3 \<or> hn b = 4)"
  then obtain j where j: "hosting_body b = Some j" "\<bar>hn b - hn j\<bar> = 1" "direct_chain j"
    using direct_chain_host [of b] by auto
  then have "hn j \<noteq> 1" using h by auto
  then obtain i where i: "hosting_body j = Some i"
    using direct_chain_host [of j] j(3) by auto
  have "get_hill_radius_relevant_to_body b =
          ([], Inr (aj * (mass j / (3 * mass i)) powr (1 / 3))) \<and>
        get_critical_semi_major_axis b =
          ([], Inr ((if hn b = 3 then 4 / 10 else 33 / 100) *
                    (aj * (mass j / (3 * mass i)) powr (1 / 3))))"
    if a: "body_a j = Some aj \<and> 0 < mass j \<and> 0 < mass i" for aj
  proof -
    define q where "q = mass j / (3 * mass i)"
    have q: "0 < q" unfolding q_def using a by simp
    have d: "py_div (mass j) (3 * mass i) = Inr q"
      using a by (simp add: py_div_nonzero q_def)
    have hill: "get_hill_radius_relevant_to_body b = ([], Inr (aj * q powr (1 / 3)))"
      using h j(1) i d q a by (auto simp: get_hill_radius_relevant_to_body_def py_pow_pos)
    have "get_critical_semi_major_axis b =
            ([], Inr ((if hn b = 3 then 4 / 10 else 33 / 100) * (aj * q powr (1 / 3))))"
      using h hill by (auto simp: get_critical_semi_major_axis_def)
    with hill show ?thesis unfolding q_def by simp
  qed
  with j(1) i
  show "\<exists>j i. hosting_body b = Some j \<and> hosting_body j = Some i \<and>
         (\<forall>aj. body_a j = Some aj \<and> 0 < mass j \<and> 0 < mass i \<longrightarrow>
            get_hill_radius_relevant_to_body b =
              ([], Inr (aj * (mass j / (3 * mass i)) powr (1 / 3))) \<and>
            get_critical_semi_major_axis b =
              ([], Inr ((if hn b = 3 then 4 / 10 else 33 / 100) *
                        (aj * (mass j / (3 * mass i)) powr (1 / 3)))))"
    by blast
qed

theorem hill_radius_and_critical_axis_witness:
  "hn earth_ex = 2 \<and>
   get_hill_radius_relevant_to_body earth_ex = ([hill_warning], Inl ValueError) \<and>
   get_critical_semi_major_axis earth_ex = ([hill_warning], Inl ValueError) \<and>
   direct_chain moon_ex \<and> hn moon_ex = 3 \<and>
   hosting_body moon_ex = Some earth_ex \<and> hosting_body earth_ex = Some sun_ex \<and>
   body_a earth_ex = Some 8 \<and> 0 < mass earth_ex \<and> 0 < mass sun_ex \<and>
   get_hill_radius_relevant_to_body moon_ex = ([], Inr (8 * (1 / (3 * 3)) powr (1 / 3))) \<and>
   get_critical_semi_major_axis moon_ex =
     ([], Inr (4 / 10 * (8 * (1 / (3 * 3)) powr (1 / 3))))"
proof -
  have e: "hn earth_ex = 1 \<or> hn earth_ex = 2"
    by (simp add: earth_ex_def)
  have m: "direct_chain moon_ex \<and> (hn moon_ex = 3 \<or> hn moon_ex = 4)"
    by (simp add: direct_chain_examples) (simp add: moon_ex_def)
  have f: "hn earth_ex = 2" "hn moon_ex = 3" "hosting_body moon_ex = Some earth_ex"
    "hosting_body earth_ex = Some sun_ex" "body_a earth_ex = Some 8"
    "mass earth_ex = 1" "mass sun_ex = 3"
    by (simp_all add: moon_ex_def earth_ex_def sun_ex_def)
  from hill_radius_and_critical_axis [of earth_ex] e
  have fail: "get_hill_radius_relevant_to_body earth_ex = ([hill_warning], Inl ValueError)"
    "get_critical_semi_major_axis earth_ex = ([hill_warning], Inl ValueError)"
    by blast+
  from hill_radius_and_critical_axis [of moon_ex] m f
  have ok: "get_hill_radius_relevant_to_body moon_ex =
              ([], Inr (8 * (1 / (3 * 3)) powr (1 / 3)))"
    "get_critical_semi_major_axis moon_ex =
       ([], Inr (4 / 10 * (8 * (1 / (3 * 3)) powr (1 / 3))))"
    by auto
  show ?thesis
    using fail ok m f by simp
qed

section \<open>Roche limit\<close>

text \<open>
  Claim C8. For a body of positive mass and density with a hosting body of positive
  mass, \<^verbatim>\<open>get_roche_limit\<close> returns the mean radius \<^verbatim>\<open>R\<close> of the body times
  \<open>(3 * m\<^sub>i / m\<^sub>j)\<^sup>1\<^sup>/\<^sup>3\<close>. Of two bodies with the same mass and density, and therefore the
  same radius, the one whose hosting body is heavier has the strictly larger limit.
\<close>

theorem roche_limit_monotone:
  assumes "hosting_body j1 = Some i1" and "hosting_body j2 = Some i2"
    and "mass j1 = mass j2" and "rho j1 = rho j2"
    and "0 < mass j1" and "0 < rho j1"
    and "0 < mass i1" and "mass i1 < mass i2"
  shows "\<exists>r1 r2 radius.
           body_R j1 = Inr radius \<and> body_R j2 = Inr radius \<and>
           get_roche_limit j1 = Inr r1 \<and> get_roche_limit j2 = Inr r2 \<and>
           r1 = radius * (3 * mass i1 / mass j1) powr (1 / 3) \<and>
           r2 = radius * (3 * mass i2 / mass j2) powr (1 / 3) \<and>
           r1 < r2"
proof -
  define radius where "radius = (3 * mass j1 / rho j1 / (4 * pi)) powr (1 / 3)"
  define q1 where "q1 = 3 * mass i1 / mass j1"
  define q2 where "q2 = 3 * mass i2 / mass j1"
  have R1: "body_R j1 = Inr radius" and rpos: "0 < radius"
    using body_R_pos [OF assms(5,6)] by (simp_all add: radius_def)
  have R2: "body_R j2 = Inr radius"
    using body_R_pos [of j2] assms(3,4,5,6) by (simp add: radius_def)
  have q1: "0 < q1" unfolding q1_def using assms(5,7) by simp
  have q12: "q1 < q2"
    unfolding q1_def q2_def using assms(5,8) by (simp add: divide_strict_right_mono)
  have q2: "0 < q2" using q1 q12 by simp
  have nz: "mass j1 \<noteq> 0" using assms(5) by simp
  have d1: "py_div (3 * mass i1) (mass j1) = Inr q1"
    using nz by (simp add: py_div_nonzero q1_def)
  have d2: "py_div (3 * mass i2) (mass j2) = Inr q2"
    using nz assms(3) by (simp add: py_div_nonzero q2_def)
  have L1: "get_roche_limit j1 = Inr (radius * q1 powr (1 / 3))"
    using R1 d1 q1 assms(1) by (simp add: get_roche_limit_def py_pow_pos)
  have L2: "get_roche_limit j2 = Inr (radius * q2 powr (1 / 3))"
    using R2 d2 q2 assms(2) by (simp add: get_roche_limit_def py_pow_pos)
  have "q1 powr (1 / 3) < q2 powr (1 / 3)"
    using q1 q12 by (intro powr_less_mono2) simp_all
  then have lt: "radius * q1 powr (1 / 3) < radius * q2 powr (1 / 3)"
    using rpos by simp
  show ?thesis
    using R1 R2 L1 L2 lt assms(3) unfolding q1_def q2_def by auto
qed

theorem roche_limit_monotone_witness:
  "mass moon_ex = mass (CelestialBody 1 1 (Some 2) 0 1 1 ''m'' ''moon'' 2 (Some sun_ex)) \<and>
   0 < mass earth_ex \<and> mass earth_ex < mass sun_ex \<and>
   (\<exists>r1 r2. get_roche_limit moon_ex = Inr r1 \<and>
            get_roche_limit (CelestialBody 1 1 (Some 2) 0 1 1 ''m'' ''moon'' 2 (Some sun_ex))
              = Inr r2 \<and>
            r1 < r2)"
proof -
  let ?j2 = "CelestialBody 1 1 (Some 2) 0 1 1 ''m'' ''moon'' 2 (Some sun_ex)"
  have h: "hosting_body moon_ex = Some earth_ex" "hosting_body ?j2 = Some sun_ex"
    "mass moon_ex = mass ?j2" "rho moon_ex = rho ?j2" "0 < mass moon_ex" "0 < rho moon_ex"
    "0 < mass earth_ex" "mass earth_ex < mass sun_ex"
    by (simp_all add: moon_ex_def earth_ex_def sun_ex_def)
  from roche_limit_monotone [OF h]
  have "\<exists>r1 r2. get_roche_limit moon_ex = Inr r1 \<and> get_roche_limit ?j2 = Inr r2 \<and> r1 < r2"
    by blast
  with h(3,7,8) show ?thesis by simp
qed

section \<open>Lifetime in a one-tide system\<close>

text \<open>
  Claim C6. Let the hosted body have positive mass and its hosting body positive Love
  number, quality factor, mass and density. For a target axis \<open>a\<^sub>c > 0\<close> and an initial
  axis \<open>a\<^sub>0 \<ge> 0\<close>, \<^verbatim>\<open>analytical_lifetime_one_tide\<close> returns the quotient of
  \<open>2/13 * a\<^sub>c\<^sup>1\<^sup>3\<^sup>/\<^sup>2 * (1 - (a\<^sub>0 / a\<^sub>c)\<^sup>1\<^sup>3\<^sup>/\<^sup>2)\<close> and
  \<open>3 * k\<^sub>i / Q\<^sub>i * (G / m\<^sub>i)\<^sup>1\<^sup>/\<^sup>2 * R\<^sub>i\<^sup>5 * m\<^sub>j\<close>, with the exponent \<open>13/2\<close>; and the lifetime from
  a semi-major axis to itself is 0.
\<close>

theorem analytical_lifetime_formula:
  assumes "hosting_body j = Some i"
    and "0 < body_k i" and "0 < body_Q i" and "0 < mass i" and "0 < rho i" and "0 < mass j"
    and "0 \<le> a_0" and "0 < a_c"
  shows "\<exists>r. body_R i = Inr r \<and>
           analytical_lifetime_one_tide a_0 a_c j =
             Inr (2 / 13 * a_c powr (13 / 2) * (1 - (a_0 / a_c) powr (13 / 2)) /
                  (3 * body_k i / body_Q i * (G / mass i) powr (1 / 2) * r ^ 5 * mass j)) \<and>
           analytical_lifetime_one_tide a_c a_c j = Inr 0"
proof -
  define r where "r = (3 * mass i / rho i / (4 * pi)) powr (1 / 3)"
  define c where "c = 3 * body_k i / body_Q i"
  define g where "g = G / mass i"
  define rhs where "rhs = c * g powr (1 / 2) * r ^ 5 * mass j"
  have R: "body_R i = Inr r" and r: "0 < r"
    using body_R_pos [OF assms(4,5)] by (simp_all add: r_def)
  have c: "0 < c" unfolding c_def using assms(2,3) by simp
  have g: "0 < g" unfolding g_def using assms(4) G_pos by simp
  have rhs: "0 < rhs"
    unfolding rhs_def using c g r assms(6) by (intro mult_pos_pos zero_less_power) simp_all
  have dc: "py_div (3 * body_k i) (body_Q i) = Inr c"
    using assms(3) by (simp add: py_div_nonzero c_def)
  have dg: "py_div G (mass i) = Inr g"
    using assms(4) by (simp add: py_div_nonzero g_def)
  have gen: "analytical_lifetime_one_tide x y j =
               Inr (2 / 13 * y powr (13 / 2) * (1 - (x / y) powr (13 / 2)) / rhs)"
    if "0 \<le> x" "0 < y" for x y
  proof -
    define ratio where "ratio = x / y"
    have ratio: "0 \<le> ratio" unfolding ratio_def using that by simp
    have dr: "py_div x y = Inr ratio" using that by (simp add: py_div_nonzero ratio_def)
    have pr: "py_pow ratio (13 / 2) = Inr (ratio powr (13 / 2))"
      using ratio by (intro py_pow_nonneg) simp_all
    have dl: "py_div l rhs = Inr (l / rhs)" for l
      using rhs by (simp add: py_div_nonzero)
    have "analytical_lifetime_one_tide x y j =
            Inr (2 / 13 * y powr (13 / 2) * (1 - ratio powr (13 / 2)) / rhs)"
      using that(2) dr pr dc dg g R assms(1) dl
      by (simp add: analytical_lifetime_one_tide_def py_pow_pos Let_def rhs_def)
    then show ?thesis unfolding ratio_def .
  qed
  have "analytical_lifetime_one_tide a_c a_c j = Inr 0"
    using gen [of a_c a_c] assms(8) by simp
  moreover note gen [OF assms(7) assms(8)] R
  ultimately show ?thesis
    unfolding rhs_def c_def g_def by blast
qed

theorem analytical_lifetime_formula_witness:
  "hosting_body moon_ex = Some earth_ex \<and> 0 < body_k earth_ex \<and> 0 < body_Q earth_ex \<and>
   0 < mass earth_ex \<and> 0 < rho earth_ex \<and> 0 < mass moon_ex \<and> (0::real) \<le> 2 \<and> (0::real) < 3 \<and>
   analytical_lifetime_one_tide 3 3 moon_ex = Inr 0 \<and>
   (\<exists>r. body_R earth_ex = Inr r \<and>
        analytical_lifetime_one_tide 2 3 moon_ex =
          Inr (2 / 13 * 3 powr (13 / 2) * (1 - (2 / 3) powr (13 / 2)) /
               (3 * 1 / 1 * (G / 1) powr (1 / 2) * r ^ 5 * 1)))"
proof -
  have h: "hosting_body moon_ex = Some earth_ex" "0 < body_k earth_ex" "0 < body_Q earth_ex"
    "0 < mass earth_ex" "0 < rho earth_ex" "0 < mass moon_ex" "(0::real) \<le> 2" "(0::real) < 3"
    by (simp_all add: moon_ex_def earth_ex_def)
  have v: "body_k earth_ex = 1" "body_Q earth_ex = 1" "mass earth_ex = 1" "mass moon_ex = 1"
    by (simp_all add: moon_ex_def earth_ex_def)
  from analytical_lifetime_formula [OF h]
  have "analytical_lifetime_one_tide 3 3 moon_ex = Inr 0 \<and>
        (\<exists>r. body_R earth_ex = Inr r \<and>
           analytical_lifetime_one_tide 2 3 moon_ex =
             Inr (2 / 13 * 3 powr (13 / 2) * (1 - (2 / 3) powr (13 / 2)) /
                  (3 * 1 / 1 * (G / 1) powr (1 / 2) * r ^ 5 * 1)))"
    unfolding v by blast
  with h show ?thesis by blast
qed

section \<open>Seconds to years\<close>

text \<open>
  Claim C2. The claim asks that \<^verbatim>\<open>turn_seconds_to_years\<close> fail with an unknown-unit error
  for every keyword other than \<^verbatim>\<open>"Vanilla"\<close>, \<^verbatim>\<open>"Millions"\<close> and \<^verbatim>\<open>"Billions"\<close>. The code does not:
  called with the keyword left at its default \<^verbatim>\<open>"Normal"\<close>, or with \<^verbatim>\<open>"Years"\<close>, it emits one
  warning and returns \<^verbatim>\<open>None\<close>, whatever the seconds and the rounding function are,
  although it is declared to return a float.
\<close>

theorem turn_seconds_to_years_default_keyword:
  "turn_seconds_to_years np_round seconds default_keyword = ([years_warning], Inr None) \<and>
   turn_seconds_to_years np_round 31536000 ''Years'' = ([years_warning], Inr None)"
  by (simp add: turn_seconds_to_years_def default_keyword_def)

end
